theory Spec2Isabelle
  imports Complex_Main "HOL-Library.Log_Nat"
begin

section \<open>Hierarchic shape functions and field projection (apf/apfHierarchic.cc)\<close>

text \<open>
  The development follows \<^verbatim>\<open>src/apf/apfHierarchic.cc\<close>: the bubble constant, the four
  entity shapes of the \<^verbatim>\<open>Hierarchic\<close> field shape, the factory \<^verbatim>\<open>getHierarchic\<close>, the
  \<^verbatim>\<open>Projector\<close> field operation and \<^verbatim>\<open>projectHierarchicField\<close>.

  The shape functions are given twice. The definitions named after the source methods
  read the arithmetic exactly, over the reals; they carry the algebraic properties
  (derivatives, vanishing bubbles, partition of unity). The value bases are given once
  more as the machine computes them, each operation rounded to binary64; those
  definitions end in \<open>_binary64\<close>. The conversion to binary64 is modelled on the
  rationals.
\<close>

subsection \<open>The bubble constant\<close>

text \<open>
  \<^verbatim>\<open>static const double c = -2.44948974278318;\<close>

  \<open>c_literal\<close> is the decimal fraction written in the source. A C++ compiler converts it
  to binary64; \<open>binary64\<close> is the correctly rounded conversion (round to nearest, ties to
  even, 53 significant bits, gradual underflow below \<open>2^-1022\<close>) for magnitudes below the
  overflow threshold, which is all this file needs.
\<close>

definition c_literal :: rat where
  "c_literal = - (244948974278318 / 100000000000000)"

definition pow2 :: "int \<Rightarrow> rat" where
  "pow2 e = (if 0 \<le> e then 2 ^ nat e else 1 / 2 ^ nat (- e))"

definition floorlog2 :: "rat \<Rightarrow> int" where
  "floorlog2 x =
     (let (p, q) = quotient_of \<bar>x\<bar>; d = bitlen p - bitlen q
      in if pow2 d \<le> \<bar>x\<bar> then d else d - 1)"

definition roundTiesToEven :: "rat \<Rightarrow> int" where
  "roundTiesToEven y =
     (let f = \<lfloor>y\<rfloor>; r = y - of_int f
      in if r < 1 / 2 then f
         else if 1 / 2 < r then f + 1
         else if even f then f else f + 1)"

definition binary64 :: "rat \<Rightarrow> rat" where
  "binary64 x =
     (if x = 0 then 0
      else let q = pow2 (max (floorlog2 x) (- 1022) - 52)
           in of_int (roundTiesToEven (x / q)) * q)"

definition c :: real where
  "c = of_rat (binary64 c_literal)"

subsection \<open>Vectors and arrays\<close>

text \<open>
  \<^verbatim>\<open>apf::Vector3\<close> with the three operations the file uses: the constructor, indexing
  \<^verbatim>\<open>v[i]\<close> and scaling \<^verbatim>\<open>v * s\<close>. An index outside 0..2 is outside the C++ array; the
  shape functions only ever use the literal indices 0, 1 and 2.

  \<^verbatim>\<open>apf::NewArray<T>\<close> is a list. \<^verbatim>\<open>allocate(n)\<close> discards the previous contents, so a
  function that allocates and then assigns every slot returns the list of the assigned
  values; a function that does neither returns the array it was given.
\<close>

datatype Vector3 = Vector3 real real real

fun idx :: "Vector3 \<Rightarrow> nat \<Rightarrow> real" where
  "idx (Vector3 x y z) i = (if i = 0 then x else if i = 1 then y else z)"

fun scale :: "Vector3 \<Rightarrow> real \<Rightarrow> Vector3" where
  "scale (Vector3 x y z) s = Vector3 (x * s) (y * s) (z * s)"

subsection \<open>Entity shapes\<close>

datatype EntityShape = Vertex | Edge | Triangle | Tetrahedron

definition Vertex_getValues :: "Vector3 \<Rightarrow> real list \<Rightarrow> real list" where
  "Vertex_getValues xi N = [1]"

definition Vertex_getLocalGradients :: "Vector3 \<Rightarrow> Vector3 list \<Rightarrow> Vector3 list" where
  "Vertex_getLocalGradients xi dN = dN"

definition Edge_getValues :: "Vector3 \<Rightarrow> real list \<Rightarrow> real list" where
  "Edge_getValues xi N =
     (let N0 = (1 - idx xi 0) / 2;
          N1 = (1 + idx xi 0) / 2;
          N2 = c * N0 * N1
      in [N0, N1, N2])"

definition Edge_getLocalGradients :: "Vector3 \<Rightarrow> Vector3 list \<Rightarrow> Vector3 list" where
  "Edge_getLocalGradients xi dN =
     [Vector3 (- 0.5) 0 0,
      Vector3 0.5 0 0,
      Vector3 (- 0.5 * c * idx xi 0) 0 0]"

definition Triangle_getValues :: "Vector3 \<Rightarrow> real list \<Rightarrow> real list" where
  "Triangle_getValues xi N =
     (let N0 = 1 - idx xi 0 - idx xi 1;
          N1 = idx xi 0;
          N2 = idx xi 1;
          N3 = c * N0 * N1;
          N4 = c * N1 * N2;
          N5 = c * N2 * N0
      in [N0, N1, N2, N3, N4, N5])"

definition Triangle_getLocalGradients :: "Vector3 \<Rightarrow> Vector3 list \<Rightarrow> Vector3 list" where
  "Triangle_getLocalGradients xi dN =
     [Vector3 (- 1) (- 1) 0,
      Vector3 1 0 0,
      Vector3 0 1 0,
      scale (Vector3 (1 - 2 * idx xi 0 - idx xi 1) (- idx xi 0) 0) c,
      scale (Vector3 (idx xi 1) (idx xi 0) 0) c,
      scale (Vector3 (- idx xi 1) (1 - idx xi 0 - 2 * idx xi 1) 0) c]"

definition Tetrahedron_getValues :: "Vector3 \<Rightarrow> real list \<Rightarrow> real list" where
  "Tetrahedron_getValues xi N =
     (let N0 = 1 - idx xi 0 - idx xi 1 - idx xi 2;
          N1 = idx xi 0;
          N2 = idx xi 1;
          N3 = idx xi 2;
          N4 = c * N0 * N1;
          N5 = c * N1 * N2;
          N6 = c * N2 * N0;
          N7 = c * N0 * N3;
          N8 = c * N1 * N3;
          N9 = c * N2 * N3
      in [N0, N1, N2, N3, N4, N5, N6, N7, N8, N9])"

definition Tetrahedron_getLocalGradients :: "Vector3 \<Rightarrow> Vector3 list \<Rightarrow> Vector3 list" where
  "Tetrahedron_getLocalGradients xi dN =
     [Vector3 (- 1) (- 1) (- 1),
      Vector3 1 0 0,
      Vector3 0 1 0,
      Vector3 0 0 1,
      scale (Vector3 (1 - 2 * idx xi 0 - idx xi 1 - idx xi 2) (- idx xi 0) (- idx xi 0)) c,
      scale (Vector3 (idx xi 1) (idx xi 0) 0) c,
      scale (Vector3 (- idx xi 1) (1 - idx xi 0 - 2 * idx xi 1 - idx xi 2) (- idx xi 1)) c,
      scale (Vector3 (- idx xi 2) (- idx xi 2) (1 - idx xi 0 - idx xi 1 - 2 * idx xi 2)) c,
      scale (Vector3 (idx xi 2) 0 (idx xi 0)) c,
      scale (Vector3 0 (idx xi 2) (idx xi 1)) c]"

text \<open>The virtual methods of \<^verbatim>\<open>EntityShape\<close>, dispatched on the dynamic class.\<close>

fun getValues :: "EntityShape \<Rightarrow> Vector3 \<Rightarrow> real list \<Rightarrow> real list" where
  "getValues Vertex = Vertex_getValues"
| "getValues Edge = Edge_getValues"
| "getValues Triangle = Triangle_getValues"
| "getValues Tetrahedron = Tetrahedron_getValues"

fun getLocalGradients :: "EntityShape \<Rightarrow> Vector3 \<Rightarrow> Vector3 list \<Rightarrow> Vector3 list" where
  "getLocalGradients Vertex = Vertex_getLocalGradients"
| "getLocalGradients Edge = Edge_getLocalGradients"
| "getLocalGradients Triangle = Triangle_getLocalGradients"
| "getLocalGradients Tetrahedron = Tetrahedron_getLocalGradients"

fun countNodes :: "EntityShape \<Rightarrow> int" where
  "countNodes Vertex = 1"
| "countNodes Edge = 3"
| "countNodes Triangle = 6"
| "countNodes Tetrahedron = 10"

subsection \<open>Value bases in double precision\<close>

text \<open>
  A finite \<^verbatim>\<open>double\<close> is the rational it denotes. The four arithmetic operations of
  IEEE 754 return the exact result rounded to binary64 (round to nearest, ties to even),
  as long as the result is below the overflow threshold; overflow, signed zeros,
  infinities and NaN are not modelled. \<^verbatim>\<open>c*N[0]*N[1]\<close> associates to the left, as C++
  parses it, and every intermediate result is rounded.
\<close>

definition fadd :: "rat \<Rightarrow> rat \<Rightarrow> rat" where
  "fadd x y = binary64 (x + y)"

definition fsub :: "rat \<Rightarrow> rat \<Rightarrow> rat" where
  "fsub x y = binary64 (x - y)"

definition fmul :: "rat \<Rightarrow> rat \<Rightarrow> rat" where
  "fmul x y = binary64 (x * y)"

definition fdiv :: "rat \<Rightarrow> rat \<Rightarrow> rat" where
  "fdiv x y = binary64 (x / y)"

definition c_binary64 :: rat where
  "c_binary64 = binary64 c_literal"

datatype Vector3_binary64 = Vector3_binary64 rat rat rat

fun idx_binary64 :: "Vector3_binary64 \<Rightarrow> nat \<Rightarrow> rat" where
  "idx_binary64 (Vector3_binary64 x y z) i = (if i = 0 then x else if i = 1 then y else z)"

definition Vertex_getValues_binary64 :: "Vector3_binary64 \<Rightarrow> rat list \<Rightarrow> rat list" where
  "Vertex_getValues_binary64 xi N = [1]"

definition Edge_getValues_binary64 :: "Vector3_binary64 \<Rightarrow> rat list \<Rightarrow> rat list" where
  "Edge_getValues_binary64 xi N =
     (let N0 = fdiv (fsub 1 (idx_binary64 xi 0)) 2;
          N1 = fdiv (fadd 1 (idx_binary64 xi 0)) 2;
          N2 = fmul (fmul c_binary64 N0) N1
      in [N0, N1, N2])"

definition Triangle_getValues_binary64 :: "Vector3_binary64 \<Rightarrow> rat list \<Rightarrow> rat list" where
  "Triangle_getValues_binary64 xi N =
     (let N0 = fsub (fsub 1 (idx_binary64 xi 0)) (idx_binary64 xi 1);
          N1 = idx_binary64 xi 0;
          N2 = idx_binary64 xi 1;
          N3 = fmul (fmul c_binary64 N0) N1;
          N4 = fmul (fmul c_binary64 N1) N2;
          N5 = fmul (fmul c_binary64 N2) N0
      in [N0, N1, N2, N3, N4, N5])"

definition Tetrahedron_getValues_binary64 :: "Vector3_binary64 \<Rightarrow> rat list \<Rightarrow> rat list" where
  "Tetrahedron_getValues_binary64 xi N =
     (let N0 = fsub (fsub (fsub 1 (idx_binary64 xi 0)) (idx_binary64 xi 1)) (idx_binary64 xi 2);
          N1 = idx_binary64 xi 0;
          N2 = idx_binary64 xi 1;
          N3 = idx_binary64 xi 2;
          N4 = fmul (fmul c_binary64 N0) N1;
          N5 = fmul (fmul c_binary64 N1) N2;
          N6 = fmul (fmul c_binary64 N2) N0;
          N7 = fmul (fmul c_binary64 N0) N3;
          N8 = fmul (fmul c_binary64 N1) N3;
          N9 = fmul (fmul c_binary64 N2) N3
      in [N0, N1, N2, N3, N4, N5, N6, N7, N8, N9])"

fun getValues_binary64 :: "EntityShape \<Rightarrow> Vector3_binary64 \<Rightarrow> rat list \<Rightarrow> rat list" where
  "getValues_binary64 Vertex = Vertex_getValues_binary64"
| "getValues_binary64 Edge = Edge_getValues_binary64"
| "getValues_binary64 Triangle = Triangle_getValues_binary64"
| "getValues_binary64 Tetrahedron = Tetrahedron_getValues_binary64"

subsection \<open>The Hierarchic field shape\<close>

text \<open>
  The entity types of \<^verbatim>\<open>apf::Mesh\<close>, in the order in which the table of
  \<^verbatim>\<open>getEntityShape\<close> lists them (its comments name each slot); \<^verbatim>\<open>Mesh::TYPES\<close> is the
  length of that table.
\<close>

definition VERTEX :: int where "VERTEX = 0"
definition EDGE :: int where "EDGE = 1"
definition TYPES :: int where "TYPES = 8"

datatype error =
    OutOfBounds
  | InvalidPointer
  | AssertionFailed
  | Fail string

definition shapes :: "EntityShape option list" where
  "shapes =
     [Some Vertex, Some Edge, Some Triangle, None, Some Tetrahedron, None, None, None]"

definition getEntityShape :: "int \<Rightarrow> error + EntityShape option" where
  "getEntityShape type =
     (if 0 \<le> type \<and> type < TYPES then Inr (shapes ! nat type) else Inl OutOfBounds)"

definition getNodeXi :: "int \<Rightarrow> int \<Rightarrow> Vector3" where
  "getNodeXi type node = Vector3 0 0 0"

definition hasNodesIn :: "int \<Rightarrow> bool" where
  "hasNodesIn dimension = (if dimension = 0 \<or> dimension = 1 then True else False)"

definition countNodesOn :: "int \<Rightarrow> nat" where
  "countNodesOn type = (if type = VERTEX \<or> type = EDGE then 1 else 0)"

definition getOrder :: int where
  "getOrder = 2"

subsection \<open>The factory\<close>

text \<open>
  \<^verbatim>\<open>getHierarchic\<close> returns a pointer. \<open>None\<close> is the null pointer, \<open>HierarchicStatic\<close>
  is the function-local static object \<^verbatim>\<open>q\<close>, and \<open>External x\<close> is whatever object
  \<^verbatim>\<open>getLagrange\<close> (declared in apfShape.h, defined elsewhere) hands out; that function is
  a parameter. The function keeps no other state, so its result depends on the order
  alone.
\<close>

datatype 'x FieldShapeRef = External 'x | HierarchicStatic

definition getHierarchic :: "(int \<Rightarrow> 'x option) \<Rightarrow> int \<Rightarrow> 'x FieldShapeRef option" where
  "getHierarchic getLagrange order =
     (if order = 1 then map_option External (getLagrange order)
      else if order = 2 then Some HierarchicStatic
      else None)"

subsection \<open>Notions used to state the properties\<close>

text \<open>
  \<open>setCoord xi i t\<close> is the point \<open>xi\<close> with its \<open>i\<close>-th reference coordinate replaced by
  \<open>t\<close>; the partial derivative with respect to coordinate \<open>i\<close> at \<open>xi\<close> is the derivative
  of \<open>t \<mapsto> f (setCoord xi i t)\<close> at \<open>t = idx xi i\<close>.
\<close>

fun setCoord :: "Vector3 \<Rightarrow> nat \<Rightarrow> real \<Rightarrow> Vector3" where
  "setCoord (Vector3 x y z) i t =
     (if i = 0 then Vector3 t y z else if i = 1 then Vector3 x t z else Vector3 x y t)"

text \<open>
  \<open>bubbles s\<close> lists, for each bubble entry of shape \<open>s\<close>, its index \<open>k\<close> in the value
  basis together with the indices \<open>i\<close>, \<open>j\<close> of the two linear entries it multiplies
  (\<^verbatim>\<open>N[k] = c*N[i]*N[j]\<close> in the source). \<open>referenceVertices s\<close> lists the vertices of the
  reference domain of \<open>s\<close>.
\<close>

fun bubbles :: "EntityShape \<Rightarrow> (nat \<times> nat \<times> nat) list" where
  "bubbles Vertex = []"
| "bubbles Edge = [(2, 0, 1)]"
| "bubbles Triangle = [(3, 0, 1), (4, 1, 2), (5, 2, 0)]"
| "bubbles Tetrahedron = [(4, 0, 1), (5, 1, 2), (6, 2, 0), (7, 0, 3), (8, 1, 3), (9, 2, 3)]"

fun referenceVertices :: "EntityShape \<Rightarrow> Vector3 list" where
  "referenceVertices Vertex = [Vector3 0 0 0]"
| "referenceVertices Edge = [Vector3 (- 1) 0 0, Vector3 1 0 0]"
| "referenceVertices Triangle = [Vector3 0 0 0, Vector3 1 0 0, Vector3 0 1 0]"
| "referenceVertices Tetrahedron =
     [Vector3 0 0 0, Vector3 1 0 0, Vector3 0 1 0, Vector3 0 0 1]"

subsection \<open>Fields, elements and the field store\<close>

text \<open>
  The projector works on objects declared in apfFieldOf.h, apfElement.h and
  apfVectorElement.h, whose definitions are outside this file. What the projector uses
  of them is kept, as fields of records:

  \<^item> of a field: its value type, its number of components per node, the number of nodes
    it declares on an entity (\<^verbatim>\<open>countNodesOn(MeshEntity*)\<close>, a count, hence a natural
    number), the node coordinate function of its shape, its nodal storage, and the
    element that \<^verbatim>\<open>createElement\<close> builds for it on a mesh element;
  \<^item> of a mesh element: the entity it reports;
  \<^item> of a field element: the entity and the type it reports and its evaluation function.
    A value of type \<^verbatim>\<open>T\<close> is the list of its components.

  The destination and the source are two records: a call in which both pointers name the
  same field is outside the model.
\<close>

record 'e VectorElement =
  ve_getEntity :: 'e

record 'e ElementOf =
  getEntity :: 'e
  getType :: int
  getValue :: "Vector3 \<Rightarrow> real list"

record 'e FieldOf =
  getValueType :: int
  countComponents :: nat
  field_countNodesOn :: "'e \<Rightarrow> nat"
  shape_getNodeXi :: "int \<Rightarrow> int \<Rightarrow> Vector3"
  nodeData :: "'e \<times> int \<Rightarrow> real list option"
  createElement :: "'e VectorElement \<Rightarrow> 'e ElementOf"

text \<open>
  Modelled from the spec: \<^verbatim>\<open>createMeshElement\<close> (defined outside this file) builds the
  geometric mapping element for the entity \<open>e\<close>; the element is bound to \<open>e\<close>.
\<close>

definition createMeshElement :: "'e \<Rightarrow> 'e VectorElement" where
  "createMeshElement e = \<lparr>ve_getEntity = e\<rparr>"

text \<open>
  Modelled from the spec: \<^verbatim>\<open>setComponents\<close> and \<^verbatim>\<open>FieldOf<T>::setNodeValue\<close> (defined
  outside this file) store one value, that is \<open>countComponents\<close> numbers, in the field's
  nodal storage under the key (entity, local node index); they only read the array they
  are given.
\<close>

definition setComponents :: "'e FieldOf \<Rightarrow> 'e \<Rightarrow> int \<Rightarrow> real list \<Rightarrow> 'e FieldOf" where
  "setComponents f e n components =
     f\<lparr>nodeData := (nodeData f)((e, n) \<mapsto> take (countComponents f) components)\<rparr>"

definition setNodeValue :: "'e FieldOf \<Rightarrow> 'e \<Rightarrow> int \<Rightarrow> real list \<Rightarrow> 'e FieldOf" where
  "setNodeValue f e n v = setComponents f e n v"

subsection \<open>The projector\<close>

text \<open>
  \<^verbatim>\<open>NewArray<double>::allocate(n)\<close> yields \<open>n\<close> cells of indeterminate content; \<open>junk i\<close>
  is what cell \<open>i\<close> happens to hold. \<open>fill\<close> is the constructor's loop
  \<^verbatim>\<open>for (int i=0; i < n; ++i) data[i] = 0.0;\<close>.
\<close>

definition allocate :: "(nat \<Rightarrow> 'a) \<Rightarrow> nat \<Rightarrow> 'a list" where
  "allocate junk n = map junk [0..<n]"

function fill :: "nat \<Rightarrow> nat \<Rightarrow> real list \<Rightarrow> real list" where
  "fill i n d = (if i < n then fill (i + 1) n (d[i := 0]) else d)"
  by pat_completeness auto
termination
  by (relation "measure (\<lambda>(i, n, d). n - i)") auto

declare fill.simps [simp del]

text \<open>
  The members of \<^verbatim>\<open>Projector<T>\<close>. \<open>meshElem\<close> and \<open>fromElem\<close> are pointers: \<open>None\<close> means
  that the pointer does not name a live element (it is null after construction and
  dangling after \<^verbatim>\<open>outEntity\<close>), and dereferencing it is the error \<open>InvalidPointer\<close>. The
  member \<^verbatim>\<open>mesh\<close> only feeds \<^verbatim>\<open>createMeshElement\<close> and is left out.
\<close>

record 'e Projector =
  to_f :: "'e FieldOf"
  from_f :: "'e FieldOf"
  meshElem :: "'e VectorElement option"
  fromElem :: "'e ElementOf option"
  data :: "real list"

definition Projector :: "(nat \<Rightarrow> real) \<Rightarrow> 'e FieldOf \<Rightarrow> 'e FieldOf \<Rightarrow> 'e Projector" where
  "Projector junk a b =
     (let n = countComponents a
      in \<lparr>to_f = a, from_f = b, meshElem = None, fromElem = None,
          data = fill 0 n (allocate junk n)\<rparr>)"

definition inEntity :: "'e \<Rightarrow> 'e Projector \<Rightarrow> bool \<times> 'e Projector" where
  "inEntity e p =
     (let me = createMeshElement e;
          fe = createElement (from_f p) me
      in (True, p\<lparr>meshElem := Some me, fromElem := Some fe\<rparr>))"

definition atNode :: "int \<Rightarrow> 'e Projector \<Rightarrow> error option \<times> 'e Projector" where
  "atNode n p =
     (case meshElem p of
        None \<Rightarrow> (Some InvalidPointer, p)
      | Some me \<Rightarrow>
          let nt = field_countNodesOn (to_f p) (ve_getEntity me);
              nf = field_countNodesOn (from_f p) (ve_getEntity me)
          in if nf = 0 \<or> int nf - int nt < 0
             then (None, p\<lparr>to_f := setComponents (to_f p) (ve_getEntity me) n (data p)\<rparr>)
             else (case fromElem p of
                     None \<Rightarrow> (Some InvalidPointer, p)
                   | Some fe \<Rightarrow>
                       let xi = shape_getNodeXi (to_f p) (getType fe) n;
                           v = getValue fe xi
                       in (None, p\<lparr>to_f := setNodeValue (to_f p) (getEntity fe) n v\<rparr>)))"

definition outEntity :: "'e Projector \<Rightarrow> 'e Projector" where
  "outEntity p = p\<lparr>meshElem := None, fromElem := None\<rparr>"

text \<open>
  Modelled from the spec: the traversal driver \<^verbatim>\<open>FieldOp::apply\<close> (defined outside this
  file). It visits the entities in the order \<open>es\<close> that the mesh supplies and runs, for
  each, the callback protocol: enter the entity, process the destination's local nodes
  \<open>0, \<dots>, count - 1\<close> in order, leave the entity. A failing callback ends the traversal.
\<close>

fun atNodes :: "int list \<Rightarrow> 'e Projector \<Rightarrow> error option \<times> 'e Projector" where
  "atNodes [] p = (None, p)"
| "atNodes (n # ns) p =
     (case atNode n p of
        (Some err, p') \<Rightarrow> (Some err, p')
      | (None, p') \<Rightarrow> atNodes ns p')"

definition visit :: "'e \<Rightarrow> 'e Projector \<Rightarrow> error option \<times> 'e Projector" where
  "visit e p =
     (case inEntity e p of
        (False, p1) \<Rightarrow> (None, p1)
      | (True, p1) \<Rightarrow>
          (case atNodes (map int [0..<field_countNodesOn (to_f p1) e]) p1 of
             (Some err, p2) \<Rightarrow> (Some err, p2)
           | (None, p2) \<Rightarrow> (None, outEntity p2)))"

fun apply_op :: "'e list \<Rightarrow> 'e Projector \<Rightarrow> error option \<times> 'e Projector" where
  "apply_op [] p = (None, p)"
| "apply_op (e # es) p =
     (case visit e p of
        (Some err, p') \<Rightarrow> (Some err, p')
      | (None, p') \<Rightarrow> apply_op es p')"

definition run :: "'e list \<Rightarrow> 'e Projector \<Rightarrow> error option \<times> 'e Projector" where
  "run es p = apply_op es p"

subsection \<open>The entry point\<close>

text \<open>
  The enumerators of \<^verbatim>\<open>apf::ValueType\<close> (declared in apf.h); only their being distinct
  matters. \<^verbatim>\<open>assert\<close> is the macro of \<^verbatim>\<open><cassert>\<close>. The file does not define
  \<^verbatim>\<open>NDEBUG\<close>, so the macro checks its argument and aborts when it is false; that is
  what is modelled. (A build that defines \<^verbatim>\<open>NDEBUG\<close> on the command line turns the
  macro into nothing and is a different program.) \<^verbatim>\<open>fail\<close> (declared in apf.h) reports
  its message and aborts. The result pairs the error, if any, with the destination
  field as the call leaves it.
\<close>

definition SCALAR :: int where "SCALAR = 0"
definition VECTOR :: int where "VECTOR = 1"
definition MATRIX :: int where "MATRIX = 2"

definition projectHierarchicField ::
  "(nat \<Rightarrow> real) \<Rightarrow> 'e list \<Rightarrow> 'e FieldOf \<Rightarrow> 'e FieldOf \<Rightarrow> error option \<times> 'e FieldOf"
where
  "projectHierarchicField junk es a b =
     (let ttype = getValueType a;
          ftype = getValueType b
      in if ttype \<noteq> ftype then (Some AssertionFailed, a)
         else if ttype = SCALAR then
           (case run es (Projector junk a b) of (r, projector) \<Rightarrow> (r, to_f projector))
         else if ttype = VECTOR then
           (case run es (Projector junk a b) of (r, projector) \<Rightarrow> (r, to_f projector))
         else if ttype = MATRIX then
           (case run es (Projector junk a b) of (r, projector) \<Rightarrow> (r, to_f projector))
         else (Some (Fail ''projectHierarchicField: unsupported value type''), a))"

subsection \<open>Sample fields\<close>

text \<open>
  \<open>constantField kind ncomp nodes shift v\<close> is a field on a mesh whose entities are
  numbered: value type \<open>kind\<close>, \<open>ncomp\<close> components, \<open>nodes\<close> nodes on every entity, the
  node coordinates of the Hierarchic shape, empty storage, and elements that evaluate
  to \<open>v\<close> everywhere and report the entity \<open>shift\<close> places after the one they were
  built on.
\<close>

abbreviation constantField :: "int \<Rightarrow> nat \<Rightarrow> nat \<Rightarrow> nat \<Rightarrow> real list \<Rightarrow> nat FieldOf" where
  "constantField kind ncomp nodes shift v \<equiv>
     \<lparr>getValueType = kind, countComponents = ncomp, field_countNodesOn = (\<lambda>e. nodes),
      shape_getNodeXi = getNodeXi, nodeData = (\<lambda>k. None),
      createElement = (\<lambda>me. \<lparr>getEntity = ve_getEntity me + shift, getType = EDGE,
                                getValue = (\<lambda>xi. v)\<rparr>)\<rparr>"

section \<open>Properties\<close>

subsection \<open>The bubble constant\<close>

text \<open>
  The literal lies in the binade \<open>[2, 4)\<close>, where binary64 values are the multiples of
  \<open>2^-51\<close>.
\<close>

lemma c_literal_binade:
  "floorlog2 c_literal = 1 \<and> pow2 1 \<le> \<bar>c_literal\<bar> \<and> \<bar>c_literal\<bar> < pow2 2"
  by code_simp

lemma binary64_c_literal: "binary64 c_literal = - (5515760546423091 / 2 ^ 51)"
  by code_simp

lemma binary64_sixteen_digits:
  "binary64 (- (2449489742783178 / 1000000000000000)) = - (5515760546423086 / 2 ^ 51)"
  by code_simp

lemma c_value: "c = - (5515760546423091 / 2 ^ 51)"
  unfolding c_def binary64_c_literal
  by (simp add: of_rat_minus of_rat_divide of_rat_power)

text \<open>
  C2, as stated, fails: the double that \<^verbatim>\<open>c\<close> holds is not the double denoted by the
  sixteen-digit literal \<open>-2.449489742783178\<close>. The source writes fifteen digits,
  \<open>-2.44948974278318\<close>, and the two decimals round to different binary64 values.
\<close>

theorem c_differs_from_sixteen_digit_literal:
  "c \<noteq> of_rat (binary64 (- (2449489742783178 / 1000000000000000)))"
  unfolding c_value binary64_sixteen_digits
  by (simp add: of_rat_minus of_rat_divide of_rat_power)

text \<open>
  C2, amended: \<^verbatim>\<open>c\<close> is the double denoted by the literal of the source,
  \<open>-2.44948974278318\<close>. That double is \<open>-5515760546423091 / 2^51\<close>; it lies within half a
  unit in the last place (\<open>2^-52\<close>) of the decimal, and five units in the last place
  (\<open>5 / 2^51\<close>) below the double denoted by \<open>-2.449489742783178\<close>.
\<close>

theorem c_is_fifteen_digit_literal:
  "c = of_rat (binary64 (- (244948974278318 / 100000000000000))) \<and>
   c = - (5515760546423091 / 2 ^ 51) \<and>
   \<bar>c - (- (244948974278318 / 100000000000000))\<bar> \<le> 1 / 2 ^ 52 \<and>
   of_rat (binary64 (- (2449489742783178 / 1000000000000000))) - c = 5 / 2 ^ 51"
proof -
  have "c = of_rat (binary64 (- (244948974278318 / 100000000000000)))"
    by (simp add: c_def c_literal_def)
  moreover have "\<bar>c - (- (244948974278318 / 100000000000000))\<bar> \<le> 1 / 2 ^ 52"
    unfolding c_value by simp
  moreover have
    "of_rat (binary64 (- (2449489742783178 / 1000000000000000))) - c = 5 / 2 ^ 51"
    unfolding c_value binary64_sixteen_digits
    by (simp add: of_rat_minus of_rat_divide of_rat_power)
  ultimately show ?thesis using c_value by blast
qed

subsection \<open>Value bases\<close>

lemma binary64_042: "binary64 (42 / 100) = 7566047373982433 / 2 ^ 54"
  by code_simp

lemma binary64_011: "binary64 (11 / 100) = 7926335344172073 / 2 ^ 56"
  by code_simp

lemma Triangle_binary64_entry0:
  "getValues_binary64 Triangle
     (Vector3_binary64 (binary64 (42 / 100)) (binary64 (11 / 100)) 0) [] ! 0 =
   4233383649728267 / 2 ^ 53"
proof -
  have "getValues_binary64 Triangle
          (Vector3_binary64 (binary64 (42 / 100)) (binary64 (11 / 100)) 0) [] ! 0 =
        fsub (fsub 1 (binary64 (42 / 100))) (binary64 (11 / 100))"
    by (simp add: Triangle_getValues_binary64_def Let_def)
  also have "\<dots> = 4233383649728267 / 2 ^ 53"
    by code_simp
  finally show ?thesis .
qed

lemma Triangle_binary64_entry1:
  "getValues_binary64 Triangle
     (Vector3_binary64 (binary64 (42 / 100)) (binary64 (11 / 100)) 0) [] ! 1 =
   7566047373982433 / 2 ^ 54"
proof -
  have "getValues_binary64 Triangle
          (Vector3_binary64 (binary64 (42 / 100)) (binary64 (11 / 100)) 0) [] ! 1 =
        binary64 (42 / 100)"
    by (simp add: Triangle_getValues_binary64_def Let_def)
  then show ?thesis unfolding binary64_042 .
qed

lemma Triangle_binary64_entry2:
  "getValues_binary64 Triangle
     (Vector3_binary64 (binary64 (42 / 100)) (binary64 (11 / 100)) 0) [] ! 2 =
   7926335344172073 / 2 ^ 56"
proof -
  have "getValues_binary64 Triangle
          (Vector3_binary64 (binary64 (42 / 100)) (binary64 (11 / 100)) 0) [] ! 2 =
        binary64 (11 / 100)"
    by (simp add: Triangle_getValues_binary64_def Let_def)
  then show ?thesis unfolding binary64_011 .
qed

lemma Triangle_binary64_sums:
  "(4233383649728267 / 2 ^ 53 + 7566047373982433 / 2 ^ 54 + 7926335344172073 / 2 ^ 56 :: rat) =
     1 + 5 / 2 ^ 56 \<and>
   fadd (fadd (4233383649728267 / 2 ^ 53) (7566047373982433 / 2 ^ 54))
     (7926335344172073 / 2 ^ 56) = 1 + 1 / 2 ^ 52"
  by code_simp

text \<open>
  The same happens on the other two simplices: at \<open>xi = 0.1\<close> on the edge the two vertex
  entries returned add up to \<open>1 + 2^-54\<close>, and at \<open>(0.1, 0.2, 0.3)\<close> in the tetrahedron
  the four add up to \<open>1 - 2^-55\<close>.
\<close>

lemma Edge_binary64_exact_sum:
  "getValues_binary64 Edge (Vector3_binary64 (binary64 (1 / 10)) 0 0) [] ! 0 +
   getValues_binary64 Edge (Vector3_binary64 (binary64 (1 / 10)) 0 0) [] ! 1 =
   1 + 1 / 2 ^ 54"
proof -
  have "getValues_binary64 Edge (Vector3_binary64 (binary64 (1 / 10)) 0 0) [] ! 0 +
        getValues_binary64 Edge (Vector3_binary64 (binary64 (1 / 10)) 0 0) [] ! 1 =
        fdiv (fsub 1 (binary64 (1 / 10))) 2 + fdiv (fadd 1 (binary64 (1 / 10))) 2"
    by (simp add: Edge_getValues_binary64_def Let_def)
  also have "\<dots> = 1 + 1 / 2 ^ 54"
    by code_simp
  finally show ?thesis .
qed

lemma Tetrahedron_binary64_exact_sum:
  "getValues_binary64 Tetrahedron
     (Vector3_binary64 (binary64 (1 / 10)) (binary64 (2 / 10)) (binary64 (3 / 10))) [] ! 0 +
   getValues_binary64 Tetrahedron
     (Vector3_binary64 (binary64 (1 / 10)) (binary64 (2 / 10)) (binary64 (3 / 10))) [] ! 1 +
   getValues_binary64 Tetrahedron
     (Vector3_binary64 (binary64 (1 / 10)) (binary64 (2 / 10)) (binary64 (3 / 10))) [] ! 2 +
   getValues_binary64 Tetrahedron
     (Vector3_binary64 (binary64 (1 / 10)) (binary64 (2 / 10)) (binary64 (3 / 10))) [] ! 3 =
   1 - 1 / 2 ^ 55"
proof -
  have "getValues_binary64 Tetrahedron
     (Vector3_binary64 (binary64 (1 / 10)) (binary64 (2 / 10)) (binary64 (3 / 10))) [] ! 0 +
   getValues_binary64 Tetrahedron
     (Vector3_binary64 (binary64 (1 / 10)) (binary64 (2 / 10)) (binary64 (3 / 10))) [] ! 1 +
   getValues_binary64 Tetrahedron
     (Vector3_binary64 (binary64 (1 / 10)) (binary64 (2 / 10)) (binary64 (3 / 10))) [] ! 2 +
   getValues_binary64 Tetrahedron
     (Vector3_binary64 (binary64 (1 / 10)) (binary64 (2 / 10)) (binary64 (3 / 10))) [] ! 3 =
   fsub (fsub (fsub 1 (binary64 (1 / 10))) (binary64 (2 / 10))) (binary64 (3 / 10)) +
     binary64 (1 / 10) + binary64 (2 / 10) + binary64 (3 / 10)"
    by (simp add: Tetrahedron_getValues_binary64_def Let_def)
  also have "\<dots> = 1 - 1 / 2 ^ 55"
    by code_simp
  finally show ?thesis .
qed

text \<open>
  C8, as stated, fails: the entries that \<^verbatim>\<open>getValues\<close> returns are doubles, and each
  subtraction in \<^verbatim>\<open>1.0-xi[0]-xi[1]\<close> is rounded. At the interior point of the reference
  triangle whose coordinates are the doubles \<open>0.42\<close> and \<open>0.11\<close>, the three vertex
  entries returned add up to \<open>1 + 5/2^56\<close>, and their sum computed in double precision is
  \<open>1 + 2^-52\<close>; neither is 1.
\<close>

theorem partition_of_unity_fails_in_binary64:
  "0 < binary64 (42 / 100) \<and> 0 < binary64 (11 / 100) \<and>
   binary64 (42 / 100) + binary64 (11 / 100) < 1 \<and>
   getValues_binary64 Triangle
       (Vector3_binary64 (binary64 (42 / 100)) (binary64 (11 / 100)) 0) [] ! 0 +
     getValues_binary64 Triangle
       (Vector3_binary64 (binary64 (42 / 100)) (binary64 (11 / 100)) 0) [] ! 1 +
     getValues_binary64 Triangle
       (Vector3_binary64 (binary64 (42 / 100)) (binary64 (11 / 100)) 0) [] ! 2 \<noteq> 1 \<and>
   fadd
     (fadd
        (getValues_binary64 Triangle
           (Vector3_binary64 (binary64 (42 / 100)) (binary64 (11 / 100)) 0) [] ! 0)
        (getValues_binary64 Triangle
           (Vector3_binary64 (binary64 (42 / 100)) (binary64 (11 / 100)) 0) [] ! 1))
     (getValues_binary64 Triangle
        (Vector3_binary64 (binary64 (42 / 100)) (binary64 (11 / 100)) 0) [] ! 2) \<noteq> 1"
proof -
  let ?N = "getValues_binary64 Triangle
              (Vector3_binary64 (binary64 (42 / 100)) (binary64 (11 / 100)) 0) []"
  have interior: "0 < binary64 (42 / 100) \<and> 0 < binary64 (11 / 100) \<and>
      binary64 (42 / 100) + binary64 (11 / 100) < 1"
    unfolding binary64_042 binary64_011 by simp
  have exact_sum: "?N ! 0 + ?N ! 1 + ?N ! 2 = 1 + 5 / 2 ^ 56"
    unfolding Triangle_binary64_entry0 Triangle_binary64_entry1 Triangle_binary64_entry2
    using Triangle_binary64_sums by blast
  have double_sum: "fadd (fadd (?N ! 0) (?N ! 1)) (?N ! 2) = 1 + 1 / 2 ^ 52"
    unfolding Triangle_binary64_entry0 Triangle_binary64_entry1 Triangle_binary64_entry2
    using Triangle_binary64_sums by blast
  have "?N ! 0 + ?N ! 1 + ?N ! 2 \<noteq> 1"
    unfolding exact_sum by simp
  moreover have "fadd (fadd (?N ! 0) (?N ! 1)) (?N ! 2) \<noteq> 1"
    unfolding double_sum by simp
  ultimately show ?thesis using interior by blast
qed

text \<open>
  C8, amended: for each of the four shapes and every point \<open>xi\<close> (so in particular every
  interior point of the reference domain), the vertex entries of the value basis, which
  are the entries before the bubbles, sum to 1 when the arithmetic is read exactly, over
  the reals.
\<close>

theorem partition_of_unity:
  "getValues Vertex xi N ! 0 = 1 \<and>
   getValues Edge xi N ! 0 + getValues Edge xi N ! 1 = 1 \<and>
   getValues Triangle xi N ! 0 + getValues Triangle xi N ! 1 + getValues Triangle xi N ! 2 = 1 \<and>
   getValues Tetrahedron xi N ! 0 + getValues Tetrahedron xi N ! 1 +
     getValues Tetrahedron xi N ! 2 + getValues Tetrahedron xi N ! 3 = 1"
  by (simp add: Vertex_getValues_def Edge_getValues_def Triangle_getValues_def
        Tetrahedron_getValues_def Let_def field_simps)

lemma bubble_product:
  assumes "(k, i, j) \<in> set (bubbles s)"
  shows "getValues s xi N ! k = c * (getValues s xi N ! i) * (getValues s xi N ! j)"
  using assms
  by (cases s) (auto simp: Edge_getValues_def Triangle_getValues_def
        Tetrahedron_getValues_def Let_def)

lemma vertex_has_zero:
  assumes "(k, i, j) \<in> set (bubbles s)" "xi \<in> set (referenceVertices s)"
  shows "getValues s xi N ! i = 0 \<or> getValues s xi N ! j = 0"
  using assms
  by (cases s) (auto simp: Edge_getValues_def Triangle_getValues_def
        Tetrahedron_getValues_def Let_def)

text \<open>
  C7: a bubble entry \<open>N[k] = c*N[i]*N[j]\<close> of the edge, the triangle or the tetrahedron
  is 0 wherever \<open>N[i]\<close> or \<open>N[j]\<close> is 0, and at every vertex of the reference domain; for
  the edge these are \<open>xi = -1\<close> and \<open>xi = 1\<close>.
\<close>

theorem bubbles_vanish:
  assumes "(k, i, j) \<in> set (bubbles s)"
    and "getValues s xi N ! i = 0 \<or> getValues s xi N ! j = 0 \<or>
         xi \<in> set (referenceVertices s)"
  shows "getValues s xi N ! k = 0"
proof -
  from assms vertex_has_zero [of k i j s xi N]
  have "getValues s xi N ! i = 0 \<or> getValues s xi N ! j = 0" by blast
  with bubble_product [OF assms(1), of xi N] show ?thesis by auto
qed

theorem bubbles_vanish_witness:
  "(2, 0, 1) \<in> set (bubbles Edge) \<and> Vector3 (- 1) 0 0 \<in> set (referenceVertices Edge) \<and>
   Vector3 1 0 0 \<in> set (referenceVertices Edge) \<and>
   getValues Edge (Vector3 (- 1) 0 0) [] ! 2 = 0 \<and>
   getValues Edge (Vector3 1 0 0) [] ! 2 = 0"
  using bubbles_vanish [of 2 0 1 Edge "Vector3 (- 1) 0 0" "[]"]
        bubbles_vanish [of 2 0 1 Edge "Vector3 1 0 0" "[]"]
  by simp

subsection \<open>Gradient bases\<close>

text \<open>
  C6, as stated, fails: \<^verbatim>\<open>Vertex::getLocalGradients\<close> has an empty body. Called on a
  freshly constructed (empty) array it leaves it empty, so the result is not the
  one-entry sequence holding the zero vector.
\<close>

theorem vertex_gradient_not_produced:
  "getLocalGradients Vertex (Vector3 0 0 0) [] \<noteq> [Vector3 0 0 0]"
  by (simp add: Vertex_getLocalGradients_def)

text \<open>
  C6, amended: for every input coordinate, the vertex shape's \<^verbatim>\<open>getLocalGradients\<close>
  returns the caller's array as it received it, neither allocated nor written, while
  the value basis is the one-entry sequence \<open>N0 = 1\<close>.
\<close>

theorem vertex_gradient_untouched:
  "getLocalGradients Vertex xi dN = dN \<and> getValues Vertex xi N = [1]"
  by (simp add: Vertex_getLocalGradients_def Vertex_getValues_def)

lemma less_3_cases: "(i::nat) < 3 \<longleftrightarrow> i = 0 \<or> i = 1 \<or> i = 2"
  by auto

lemma less_6_cases:
  "(k::nat) < 6 \<longleftrightarrow> k = 0 \<or> k = 1 \<or> k = 2 \<or> k = 3 \<or> k = 4 \<or> k = 5"
  by auto

lemma less_10_cases:
  "(k::nat) < 10 \<longleftrightarrow>
     k = 0 \<or> k = 1 \<or> k = 2 \<or> k = 3 \<or> k = 4 \<or> k = 5 \<or> k = 6 \<or> k = 7 \<or> k = 8 \<or> k = 9"
  by auto

lemma Edge_partial:
  assumes "k < 3" "i < 3"
  shows "((\<lambda>t. Edge_getValues (setCoord xi i t) N ! k) has_real_derivative
           idx (Edge_getLocalGradients xi dN ! k) i) (at (idx xi i))"
proof (cases xi)
  case (Vector3 x y z)
  from assms show ?thesis unfolding Vector3 less_3_cases
    by (auto simp: Edge_getValues_def Edge_getLocalGradients_def Let_def)
       (rule DERIV_cong, (rule derivative_intros | simp add: field_simps)+)+
qed

lemma Triangle_partial:
  assumes "k < 6" "i < 3"
  shows "((\<lambda>t. Triangle_getValues (setCoord xi i t) N ! k) has_real_derivative
           idx (Triangle_getLocalGradients xi dN ! k) i) (at (idx xi i))"
proof (cases xi)
  case (Vector3 x y z)
  from assms show ?thesis unfolding Vector3 less_3_cases less_6_cases
    by (auto simp: Triangle_getValues_def Triangle_getLocalGradients_def Let_def)
       (rule DERIV_cong, (rule derivative_intros)+, simp add: field_simps)+
qed

lemma Tetrahedron_partial:
  assumes "k < 10" "i < 3"
  shows "((\<lambda>t. Tetrahedron_getValues (setCoord xi i t) N ! k) has_real_derivative
           idx (Tetrahedron_getLocalGradients xi dN ! k) i) (at (idx xi i))"
proof (cases xi)
  case (Vector3 x y z)
  from assms show ?thesis unfolding Vector3 less_3_cases less_10_cases
    by (auto simp: Tetrahedron_getValues_def Tetrahedron_getLocalGradients_def Let_def)
       (rule DERIV_cong, (rule derivative_intros)+, simp add: field_simps)+
qed

text \<open>
  C1: for the edge, the triangle and the tetrahedron, at every point \<open>xi\<close>, the gradient
  basis has as many entries as the value basis, and component \<open>i\<close> of its entry \<open>k\<close> is
  the partial derivative, with respect to reference coordinate \<open>i\<close>, of entry \<open>k\<close> of the
  value basis, over the reals.
\<close>

theorem gradients_are_partial_derivatives:
  assumes "s = Edge \<or> s = Triangle \<or> s = Tetrahedron"
    and "int k < countNodes s"
    and "i < 3"
  shows "length (getLocalGradients s xi dN) = length (getValues s xi N) \<and>
         ((\<lambda>t. getValues s (setCoord xi i t) N ! k) has_real_derivative
            idx (getLocalGradients s xi dN ! k) i) (at (idx xi i))"
proof -
  have "length (getLocalGradients s xi dN) = length (getValues s xi N)"
    using assms(1)
    by (auto simp: Edge_getValues_def Edge_getLocalGradients_def Triangle_getValues_def
          Triangle_getLocalGradients_def Tetrahedron_getValues_def
          Tetrahedron_getLocalGradients_def Let_def)
  moreover have "((\<lambda>t. getValues s (setCoord xi i t) N ! k) has_real_derivative
            idx (getLocalGradients s xi dN ! k) i) (at (idx xi i))"
    using assms Edge_partial [of k i xi N dN] Triangle_partial [of k i xi N dN]
      Tetrahedron_partial [of k i xi N dN]
    by auto
  ultimately show ?thesis by simp
qed

theorem gradients_are_partial_derivatives_witness:
  "(Triangle = Edge \<or> Triangle = Triangle \<or> Triangle = Tetrahedron) \<and>
   int 3 < countNodes Triangle \<and> (0::nat) < 3 \<and>
   length (getLocalGradients Triangle (Vector3 (1/4) (1/4) 0) []) =
     length (getValues Triangle (Vector3 (1/4) (1/4) 0) []) \<and>
   ((\<lambda>t. getValues Triangle (setCoord (Vector3 (1/4) (1/4) 0) 0 t) [] ! 3)
      has_real_derivative idx (getLocalGradients Triangle (Vector3 (1/4) (1/4) 0) [] ! 3) 0)
     (at (idx (Vector3 (1/4) (1/4) 0) 0))"
  using gradients_are_partial_derivatives [of Triangle 3 0 "Vector3 (1/4) (1/4) 0" "[]" "[]"]
  by simp

subsection \<open>The factory\<close>

text \<open>
  C9: \<^verbatim>\<open>getHierarchic\<close> returns what the external \<^verbatim>\<open>getLagrange\<close> returns for order 1,
  the one static Hierarchic object for order 2, whatever was called before, and the null
  pointer for every other order.
\<close>

theorem getHierarchic_orders:
  "getHierarchic getLagrange 1 = map_option External (getLagrange 1) \<and>
   getHierarchic getLagrange 2 = Some HierarchicStatic \<and>
   (order \<noteq> 1 \<and> order \<noteq> 2 \<longrightarrow> getHierarchic getLagrange order = None)"
  by (simp add: getHierarchic_def)

theorem getHierarchic_orders_witness:
  "(3::int) \<noteq> 1 \<and> (3::int) \<noteq> 2 \<and>
   getHierarchic (\<lambda>n. Some ''Linear'') 3 = None \<and>
   getHierarchic (\<lambda>n. Some ''Linear'') 1 = Some (External ''Linear'') \<and>
   getHierarchic (\<lambda>n. Some ''Linear'') 2 = Some HierarchicStatic"
  using getHierarchic_orders [of "\<lambda>n. Some ''Linear''" 3]
  by simp

subsection \<open>The projector's scratch buffer\<close>

lemma fill_zero:
  "i \<le> n \<Longrightarrow> length d = n \<Longrightarrow> fill i n d = take i d @ replicate (n - i) 0"
proof (induction i n d rule: fill.induct)
  case (1 i n d)
  show ?case
  proof (cases "i < n")
    case True
    then have "fill i n d = fill (i + 1) n (d[i := 0])"
      by (subst fill.simps) simp
    also have "\<dots> = take (i + 1) (d[i := 0]) @ replicate (n - (i + 1)) 0"
      using True 1 by simp
    also have "take (i + 1) (d[i := 0]) = take i d @ [0]"
      using True 1(3) by (simp add: take_Suc_conv_app_nth)
    also have "(take i d @ [0]) @ replicate (n - (i + 1)) 0 = take i d @ replicate (n - i) 0"
      using True by (simp add: replicate_Suc [symmetric] Suc_diff_Suc del: replicate_Suc)
    finally show ?thesis .
  next
    case False
    with 1(2,3) show ?thesis by (subst fill.simps) simp
  qed
qed

lemma Projector_data: "data (Projector junk a b) = replicate (countComponents a) 0"
  by (simp add: Projector_def Let_def allocate_def fill_zero)

lemma inEntity_result:
  "inEntity e p =
     (True, p\<lparr>meshElem := Some (createMeshElement e),
              fromElem := Some (createElement (from_f p) (createMeshElement e))\<rparr>)"
  by (simp add: inEntity_def Let_def)

lemma inEntity_data: "data (snd (inEntity e p)) = data p"
  by (simp add: inEntity_result)

lemma atNode_data: "data (snd (atNode n p)) = data p"
  by (simp add: atNode_def Let_def split: option.splits)

lemma outEntity_data: "data (outEntity p) = data p"
  by (simp add: outEntity_def)

lemma atNodes_data: "data (snd (atNodes ns p)) = data p"
proof (induction ns arbitrary: p)
  case Nil
  show ?case by simp
next
  case (Cons n ns)
  obtain r p' where step: "atNode n p = (r, p')" by (cases "atNode n p")
  then have "data p' = data p" using atNode_data [of n p] by simp
  with step Cons show ?case by (cases r) simp_all
qed

lemma visit_data: "data (snd (visit e p)) = data p"
proof -
  define p1 where "p1 = p\<lparr>meshElem := Some (createMeshElement e),
              fromElem := Some (createElement (from_f p) (createMeshElement e))\<rparr>"
  define ns where "ns = map int [0..<field_countNodesOn (to_f p1) e]"
  obtain r p2 where nodes: "atNodes ns p1 = (r, p2)" by (cases "atNodes ns p1")
  then have "data p2 = data p"
    using atNodes_data [of ns p1] by (simp add: p1_def)
  moreover have "visit e p = (case atNodes ns p1 of
             (Some err, p2) \<Rightarrow> (Some err, p2)
           | (None, p2) \<Rightarrow> (None, outEntity p2))"
    by (simp add: visit_def inEntity_result p1_def ns_def)
  ultimately show ?thesis using nodes
    by (cases r) (simp_all add: outEntity_data)
qed

lemma apply_op_data: "data (snd (apply_op es p)) = data p"
proof (induction es arbitrary: p)
  case Nil
  show ?case by simp
next
  case (Cons e es)
  obtain r p' where step: "visit e p = (r, p')" by (cases "visit e p")
  then have "data p' = data p" using visit_data [of e p] by simp
  with step Cons show ?case by (cases r) simp_all
qed

text \<open>
  C10: the constructor gives \<open>data\<close> exactly \<open>countComponents\<close> cells of the destination
  and sets each to 0, whatever the allocation held; \<^verbatim>\<open>inEntity\<close>, \<^verbatim>\<open>atNode\<close> and
  \<^verbatim>\<open>outEntity\<close> leave \<open>data\<close> as it is. So \<open>data\<close> is all zero before and after every
  operation, and still is after a traversal of any list of entities.
\<close>

theorem data_stays_zero:
  "length (data (Projector junk a b)) = countComponents a \<and>
   data (Projector junk a b) = replicate (countComponents a) 0 \<and>
   data (snd (inEntity e p)) = data p \<and>
   data (snd (atNode n p)) = data p \<and>
   data (outEntity p) = data p \<and>
   data (snd (run es (Projector junk a b))) = replicate (countComponents a) 0"
  by (simp add: Projector_data inEntity_data atNode_data outEntity_data run_def apply_op_data)

subsection \<open>The two branches of atNode\<close>

text \<open>
  C3: while the projector is inside entity \<open>e\<close> (its mesh element is bound to \<open>e\<close>) and
  its buffer is the zero buffer the constructor made, if the source declares no node on
  \<open>e\<close>, or fewer than the destination, then \<^verbatim>\<open>atNode(n)\<close> reports no error and its only
  effect is to store the all-zero value, of the destination's component count, at node
  \<open>n\<close> of \<open>e\<close>. The source element plays no part: it may even be missing.
\<close>

theorem zero_fill_branch:
  assumes "meshElem p = Some me" and "ve_getEntity me = e"
    and "data p = replicate (countComponents (to_f p)) 0"
    and "field_countNodesOn (from_f p) e = 0 \<or>
         field_countNodesOn (from_f p) e < field_countNodesOn (to_f p) e"
  shows "atNode n p =
           (None, p\<lparr>to_f := (to_f p)\<lparr>nodeData :=
              (nodeData (to_f p))((e, n) \<mapsto> replicate (countComponents (to_f p)) 0)\<rparr>\<rparr>)"
  using assms by (auto simp: atNode_def Let_def setComponents_def)

theorem zero_fill_branch_witness:
  "meshElem (snd (inEntity 7 (Projector (\<lambda>i. 1) (constantField SCALAR 1 1 0 [5])
       (constantField SCALAR 1 0 0 [5])))) = Some (createMeshElement 7) \<and>
   ve_getEntity (createMeshElement (7::nat)) = 7 \<and>
   data (snd (inEntity 7 (Projector (\<lambda>i. 1) (constantField SCALAR 1 1 0 [5])
       (constantField SCALAR 1 0 0 [5])))) = replicate 1 0 \<and>
   fst (atNode 0 (snd (inEntity 7 (Projector (\<lambda>i. 1) (constantField SCALAR 1 1 0 [5])
       (constantField SCALAR 1 0 0 [5]))))) = None \<and>
   nodeData (to_f (snd (atNode 0 (snd (inEntity 7 (Projector (\<lambda>i. 1)
       (constantField SCALAR 1 1 0 [5]) (constantField SCALAR 1 0 0 [5]))))))) (7, 0) = Some [0]"
  using zero_fill_branch [of "snd (inEntity 7 (Projector (\<lambda>i. 1) (constantField SCALAR 1 1 0 [5])
       (constantField SCALAR 1 0 0 [5])))" "createMeshElement 7" 7 0]
  by (simp add: inEntity_result Projector_data createMeshElement_def)
     (simp add: Projector_def)

text \<open>
  C4: while the projector is inside entity \<open>e\<close> with source element \<open>fe\<close>, if the source
  declares at least one node on \<open>e\<close> and at least as many as the destination, then
  \<^verbatim>\<open>atNode(n)\<close> reports no error and its only effect is to store, at node \<open>n\<close> of the
  entity that \<open>fe\<close> reports, the value of \<open>fe\<close> at the coordinate that the destination's
  shape gives for node \<open>n\<close>. Where \<open>fe\<close> reports an entity other than \<open>e\<close>, node \<open>n\<close> of
  \<open>e\<close> keeps what it held.
\<close>

theorem sampling_branch:
  assumes "meshElem p = Some me" and "ve_getEntity me = e" and "fromElem p = Some fe"
    and "field_countNodesOn (from_f p) e \<noteq> 0"
    and "field_countNodesOn (to_f p) e \<le> field_countNodesOn (from_f p) e"
  shows "atNode n p =
           (None, p\<lparr>to_f := (to_f p)\<lparr>nodeData :=
              (nodeData (to_f p))((getEntity fe, n) \<mapsto>
                 take (countComponents (to_f p))
                   (getValue fe (shape_getNodeXi (to_f p) (getType fe) n)))\<rparr>\<rparr>) \<and>
         (getEntity fe \<noteq> e \<longrightarrow>
            nodeData (to_f (snd (atNode n p))) (e, n) = nodeData (to_f p) (e, n))"
  using assms by (auto simp: atNode_def Let_def setComponents_def setNodeValue_def)

theorem sampling_branch_witness:
  "meshElem (snd (inEntity 7 (Projector (\<lambda>i. 1) (constantField SCALAR 1 1 0 [0])
       (constantField SCALAR 1 1 100 [5])))) = Some (createMeshElement 7) \<and>
   getEntity (createElement (constantField SCALAR 1 1 100 [5]) (createMeshElement 7)) = 107 \<and>
   fst (atNode 0 (snd (inEntity 7 (Projector (\<lambda>i. 1) (constantField SCALAR 1 1 0 [0])
       (constantField SCALAR 1 1 100 [5]))))) = None \<and>
   nodeData (to_f (snd (atNode 0 (snd (inEntity 7 (Projector (\<lambda>i. 1)
       (constantField SCALAR 1 1 0 [0]) (constantField SCALAR 1 1 100 [5]))))))) (107, 0) =
     Some [5] \<and>
   nodeData (to_f (snd (atNode 0 (snd (inEntity 7 (Projector (\<lambda>i. 1)
       (constantField SCALAR 1 1 0 [0]) (constantField SCALAR 1 1 100 [5]))))))) (7, 0) = None"
  using sampling_branch [of "snd (inEntity 7 (Projector (\<lambda>i. 1) (constantField SCALAR 1 1 0 [0])
       (constantField SCALAR 1 1 100 [5])))" "createMeshElement 7" 7
       "createElement (constantField SCALAR 1 1 100 [5]) (createMeshElement 7)" 0]
  by (simp add: inEntity_result createMeshElement_def Projector_def)

subsection \<open>The entry point\<close>

lemma atNode_live:
  assumes "meshElem p = Some me" "fromElem p = Some fe"
  shows "fst (atNode n p) = None \<and> meshElem (snd (atNode n p)) = Some me \<and>
         fromElem (snd (atNode n p)) = Some fe"
  using assms by (simp add: atNode_def Let_def)

lemma atNodes_live:
  assumes "meshElem p = Some me" "fromElem p = Some fe"
  shows "fst (atNodes ns p) = None"
  using assms
proof (induction ns arbitrary: p)
  case Nil
  show ?case by simp
next
  case (Cons n ns)
  obtain r p' where step: "atNode n p = (r, p')" by (cases "atNode n p")
  with atNode_live [OF Cons.prems, of n]
  have "r = None" "meshElem p' = Some me" "fromElem p' = Some fe" by simp_all
  with step Cons.IH [of p'] show ?case by simp
qed

lemma visit_succeeds: "fst (visit e p) = None"
proof -
  define p1 where "p1 = p\<lparr>meshElem := Some (createMeshElement e),
              fromElem := Some (createElement (from_f p) (createMeshElement e))\<rparr>"
  define ns where "ns = map int [0..<field_countNodesOn (to_f p1) e]"
  have "fst (atNodes ns p1) = None"
    by (rule atNodes_live) (simp_all add: p1_def)
  then obtain p2 where "atNodes ns p1 = (None, p2)" by (cases "atNodes ns p1") simp
  then show ?thesis
    by (simp add: visit_def inEntity_result p1_def ns_def)
qed

lemma apply_op_succeeds: "fst (apply_op es p) = None"
proof (induction es arbitrary: p)
  case Nil
  show ?case by simp
next
  case (Cons e es)
  obtain p' where "visit e p = (None, p')"
    using visit_succeeds [of e p] by (cases "visit e p") simp
  with Cons show ?case by simp
qed

lemma run_succeeds: "fst (run es p) = None"
  by (simp add: run_def apply_op_succeeds)

text \<open>
  C5: \<^verbatim>\<open>projectHierarchicField\<close> signals an error if and only if the two value types
  differ or the value type is none of scalar, vector and matrix; there is no other
  error, and when it signals one the destination field is as it was.
\<close>

theorem projectHierarchicField_errors:
  "(fst (projectHierarchicField junk es a b) \<noteq> None) =
     (getValueType a \<noteq> getValueType b \<or> getValueType a \<notin> {SCALAR, VECTOR, MATRIX}) \<and>
   (fst (projectHierarchicField junk es a b) \<noteq> None \<longrightarrow>
      snd (projectHierarchicField junk es a b) = a)"
proof -
  obtain p where "run es (Projector junk a b) = (None, p)"
    using run_succeeds [of es "Projector junk a b"]
    by (cases "run es (Projector junk a b)") simp
  then show ?thesis
    by (simp add: projectHierarchicField_def Let_def)
qed

theorem projectHierarchicField_errors_witness:
  "getValueType (constantField SCALAR 1 1 0 [0]) \<noteq>
     getValueType (constantField VECTOR 3 1 0 [1, 2, 3]) \<and>
   fst (projectHierarchicField (\<lambda>i. 1) [7] (constantField SCALAR 1 1 0 [0])
          (constantField VECTOR 3 1 0 [1, 2, 3])) \<noteq> None \<and>
   snd (projectHierarchicField (\<lambda>i. 1) [7] (constantField SCALAR 1 1 0 [0])
          (constantField VECTOR 3 1 0 [1, 2, 3])) = constantField SCALAR 1 1 0 [0] \<and>
   fst (projectHierarchicField (\<lambda>i. 1) [7] (constantField SCALAR 1 1 0 [0])
          (constantField SCALAR 1 1 0 [5])) = None"
  using projectHierarchicField_errors [of "\<lambda>i. 1" "[7]" "constantField SCALAR 1 1 0 [0]"
          "constantField VECTOR 3 1 0 [1, 2, 3]"]
        projectHierarchicField_errors [of "\<lambda>i. 1" "[7]" "constantField SCALAR 1 1 0 [0]"
          "constantField SCALAR 1 1 0 [5]"]
  by (simp add: SCALAR_def VECTOR_def MATRIX_def)

end
